theory Spec2Isabelle
  imports Complex_Main "HOL-Library.Multiset"
begin

section \<open>Numbers\<close>

text \<open>
  The engine is TypeScript; every quantity is a JavaScript \<open>number\<close>. Prices, volumes,
  buy limits and budgets are modelled as exact reals: the values the engine handles are
  integers far below \<open>2^53\<close> and their quotients, and on those the floors taken by the
  source (\<open>Math.floor(x * 0.02)\<close>, \<open>Math.floor(x * 0.1)\<close>, \<open>Math.floor(a / b)\<close>)
  agree with the exact ones.

  Rounding decides one thing in the engine that exact arithmetic cannot: the order in
  which the two sorts of \<open>getFlipOpportunities\<close> leave candidates whose keys are equal
  or nearly so. Composite scores that are equal as fractions may be stored as doubles
  that differ in the last bit, and returns that differ as fractions may be stored as
  the same double; the sorts follow the doubles. The keys of the two sorts are
  therefore computed below with every operation rounded to binary64 (\<open>fl64\<close>), from
  integers that doubles hold exactly. The fields of the records keep the exact values,
  and everywhere else the rounding of doubles is not modelled.

  What exact reals cannot say is the result of a division by zero, which in JavaScript
  is \<open>Infinity\<close>, \<open>-Infinity\<close> or \<open>NaN\<close> and never an exception. Where the source
  divides by a value that no guard keeps away from zero, the quotient is a \<open>jsnum\<close>.
\<close>

datatype jsnum = Num real | PosInfinity | NegInfinity | NaN

definition js_div :: "real \<Rightarrow> real \<Rightarrow> jsnum" where
  "js_div a b =
     (if b \<noteq> 0 then Num (a / b)
      else if 0 < a then PosInfinity
      else if a < 0 then NegInfinity
      else NaN)"

definition js_times :: "jsnum \<Rightarrow> real \<Rightarrow> jsnum" where
  "js_times x c =
     (case x of
        Num a \<Rightarrow> Num (a * c)
      | NaN \<Rightarrow> NaN
      | PosInfinity \<Rightarrow> (if 0 < c then PosInfinity else if c < 0 then NegInfinity else NaN)
      | NegInfinity \<Rightarrow> (if 0 < c then NegInfinity else if c < 0 then PosInfinity else NaN))"

definition isFinite :: "jsnum \<Rightarrow> bool" where
  "isFinite x = (case x of Num _ \<Rightarrow> True | _ \<Rightarrow> False)"

text \<open>
  \<open>Math.min(b, x)\<close> where \<open>b\<close> may be \<open>+Infinity\<close>, written \<open>None\<close>: the minimum
  with \<open>+Infinity\<close> is the other argument.
\<close>

fun min_inf :: "real option \<Rightarrow> real \<Rightarrow> real" where
  "min_inf None x = x"
| "min_inf (Some b) x = min b x"

text \<open>
  \<open>x || 0\<close> and \<open>!x\<close> on a nullable number: \<open>null\<close>, \<open>undefined\<close> and \<open>0\<close> are
  falsy.
\<close>

definition orZero :: "real option \<Rightarrow> real" where
  "orZero x = (case x of None \<Rightarrow> 0 | Some v \<Rightarrow> v)"

definition truthy :: "real option \<Rightarrow> bool" where
  "truthy x = (case x of None \<Rightarrow> False | Some v \<Rightarrow> v \<noteq> 0)"

text \<open>
  \<open>xs.sort((a, b) => f(b) - f(a))\<close>: the sort of ECMAScript is stable, and under this
  comparator it orders by \<open>f\<close>, largest first; \<open>sort_key\<close> is the stable insertion
  sort.
\<close>

definition sortDescBy :: "('a \<Rightarrow> real) \<Rightarrow> 'a list \<Rightarrow> 'a list" where
  "sortDescBy f xs = sort_key (\<lambda>x. - f x) xs"

text \<open>\<open>xs.findIndex(p)\<close>: the first index whose element satisfies \<open>p\<close>, or \<open>-1\<close>.\<close>

fun findIndex :: "('a \<Rightarrow> bool) \<Rightarrow> 'a list \<Rightarrow> int" where
  "findIndex p [] = - 1"
| "findIndex p (x # xs) =
     (if p x then 0 else (let r = findIndex p xs in if r < 0 then - 1 else r + 1))"

text \<open>
  IEEE 754 binary64, round to nearest, ties to even. The exponent of a magnitude is
  found by halving or doubling it into \<open>[1, 2)\<close>, at most 1023 or 1022 times: below
  \<open>2^-1022\<close> the exponent stays at -1022 and the result is subnormal. A result beyond
  the largest double (\<open>Infinity\<close> in the code) is outside this model.
\<close>

primrec expUp :: "nat \<Rightarrow> real \<Rightarrow> int" where
  "expUp 0 x = 0"
| "expUp (Suc k) x = (if x < 2 then 0 else expUp k (x / 2) + 1)"

primrec expDown :: "nat \<Rightarrow> real \<Rightarrow> int" where
  "expDown 0 x = 0"
| "expDown (Suc k) x = (if 1 \<le> x then 0 else expDown k (x * 2) - 1)"

definition exponent64 :: "real \<Rightarrow> int" where
  "exponent64 x = (if 1 \<le> x then expUp 1023 x else expDown 1022 x)"

definition pow2 :: "int \<Rightarrow> real" where
  "pow2 e = (if 0 \<le> e then 2 ^ nat e else 1 / 2 ^ nat (- e))"

definition roundEven :: "real \<Rightarrow> int" where
  "roundEven m =
     (let f = \<lfloor>m\<rfloor>; d = m - real_of_int f
      in if d < 1 / 2 then f else if 1 / 2 < d then f + 1 else if even f then f else f + 1)"

definition fl64 :: "real \<Rightarrow> real" where
  "fl64 x = (let u = pow2 (exponent64 \<bar>x\<bar> - 52) in real_of_int (roundEven (x / u)) * u)"

text \<open>\<open>Number.MAX_SAFE_INTEGER\<close> is \<open>2^53 - 1\<close>.\<close>

definition MAX_SAFE_INTEGER :: real where
  "MAX_SAFE_INTEGER = 9007199254740991"

section \<open>Data model\<close>

datatype riskLevel = Low | Medium | High | Extreme

text \<open>
  \<open>FlipOpportunity\<close> of \<open>types/api\<close>. The field \<open>id\<close> is \<open>id_opp\<close> here and the
  optional \<open>isStable\<close> is \<open>isStable_opp\<close>; optional fields are options, the date is
  a timestamp.
\<close>

record FlipOpportunity =
  id_opp :: int
  name :: string
  icon :: "string option"
  currentHigh :: real
  currentLow :: real
  avgPrice :: real
  margin :: real
  marginPercent :: real
  roi :: real
  quantity :: real
  totalCost :: real
  totalProfit :: real
  profitAfterTax :: real
  buyLimit :: real
  volume :: real
  volatility :: real
  lastUpdated :: int
  compositeScore :: "real option"
  riskLevel :: "riskLevel option"
  isStable_opp :: "bool option"

text \<open>
  \<open>PortfolioSuggestion\<close> of \<open>types/api\<close>, without \<open>updatedAt\<close> (the wall clock at
  the time of the call). The fields that share a name with a field of
  \<open>FlipOpportunity\<close> carry the suffix \<open>_pf\<close>.
\<close>

record PortfolioSuggestion =
  totalBudget :: real
  totalCost_pf :: real
  totalProfit_pf :: real
  totalProfitAfterTax :: real
  totalROI :: real
  opportunities :: "FlipOpportunity list"
  itemCount :: nat
  budgetUtilization :: jsnum

text \<open>
  A stored price row and an item with its rows, most recent first, as the query of
  \<open>getFlipOpportunities\<close> returns them. \<open>high\<close> and \<open>low\<close> are nullable.
\<close>

record price =
  high :: "real option"
  low :: "real option"
  timestamp :: int

record item =
  item_id :: int
  item_name :: string
  item_icon :: "string option"
  item_buyLimit :: real
  prices :: "price list"

text \<open>The filter options of \<open>getFlipOpportunities\<close>, defaults already filled in.\<close>

record filterOptions =
  minVolume :: real
  maxVolatility :: real
  includeSpikes :: bool
  includeHighRisk :: bool

record priceAnalysis =
  hasSpike :: bool
  hasCrash :: bool
  isStable :: bool

section \<open>Constants of the calculations library\<close>

definition GE_TAX_RATE :: real where
  "GE_TAX_RATE = 0.02"

definition MAX_GE_TAX :: real where
  "MAX_GE_TAX = 5000000"

definition MIN_VOLUME_THRESHOLDS_HOURLY :: real where
  "MIN_VOLUME_THRESHOLDS_HOURLY = 50"

definition MIN_VOLUME_THRESHOLDS_DAILY :: real where
  "MIN_VOLUME_THRESHOLDS_DAILY = 1200"

definition VOLATILITY_THRESHOLDS_LOW :: real where
  "VOLATILITY_THRESHOLDS_LOW = 5"

definition VOLATILITY_THRESHOLDS_MEDIUM :: real where
  "VOLATILITY_THRESHOLDS_MEDIUM = 15"

definition VOLATILITY_THRESHOLDS_HIGH :: real where
  "VOLATILITY_THRESHOLDS_HIGH = 20"

definition VOLATILITY_THRESHOLDS_EXTREME :: real where
  "VOLATILITY_THRESHOLDS_EXTREME = 30"

definition PRICE_SPIKE_THRESHOLDS_HIGH_MULTIPLIER :: real where
  "PRICE_SPIKE_THRESHOLDS_HIGH_MULTIPLIER = 1.5"

definition PRICE_SPIKE_THRESHOLDS_LOW_MULTIPLIER :: real where
  "PRICE_SPIKE_THRESHOLDS_LOW_MULTIPLIER = 0.5"

definition MAX_MARGIN_PERCENT :: real where
  "MAX_MARGIN_PERCENT = 1000"

section \<open>Tax and margin\<close>

definition calculateMargin :: "real \<Rightarrow> real \<Rightarrow> real" where
  "calculateMargin h l = h - l"

definition calculateMarginPercent :: "real \<Rightarrow> real \<Rightarrow> real" where
  "calculateMarginPercent m l = (if l = 0 then 0 else (m / l) * 100)"

definition calculateROI :: "real \<Rightarrow> real \<Rightarrow> real" where
  "calculateROI profit cost = (if cost = 0 then 0 else (profit / cost) * 100)"

definition calculateGETax :: "real \<Rightarrow> real" where
  "calculateGETax sellPrice =
     (let tax = real_of_int \<lfloor>sellPrice * GE_TAX_RATE\<rfloor>
      in min (max tax 1) MAX_GE_TAX)"

definition calculateProfitAfterTax :: "real \<Rightarrow> real \<Rightarrow> real \<Rightarrow> real" where
  "calculateProfitAfterTax m h q =
     (let taxPerItem = calculateGETax h;
          profitPerItem = m - taxPerItem
      in profitPerItem * q)"

section \<open>Volatility and anomalies\<close>

text \<open>\<open>xs.reduce((sum, x) => sum + x, 0)\<close> is a left fold.\<close>

definition calculateVolatility :: "real list \<Rightarrow> real" where
  "calculateVolatility ps =
     (if length ps < 2 then 0
      else
        let mean = foldl (\<lambda>sum p. sum + p) 0 ps / real (length ps);
            variance = foldl (\<lambda>sum p. sum + (p - mean) ^ 2) 0 ps / real (length ps);
            standardDeviation = sqrt variance
        in if 0 < mean then (standardDeviation / mean) * 100 else 0)"

definition detectPriceAnomalies :: "real \<Rightarrow> real \<Rightarrow> real list \<Rightarrow> real list \<Rightarrow> priceAnalysis" where
  "detectPriceAnomalies curHigh curLow recentHighs recentLows =
     (if length recentHighs < 3 \<or> length recentLows < 3
      then \<lparr>hasSpike = False, hasCrash = False, isStable = True\<rparr>
      else
        let avgRecentHigh =
              foldl (\<lambda>sum p. sum + p) 0 (drop 1 recentHighs) / (real (length recentHighs) - 1);
            avgRecentLow =
              foldl (\<lambda>sum p. sum + p) 0 (drop 1 recentLows) / (real (length recentLows) - 1);
            spike = (avgRecentHigh * PRICE_SPIKE_THRESHOLDS_HIGH_MULTIPLIER < curHigh);
            crash = (curLow < avgRecentLow * PRICE_SPIKE_THRESHOLDS_LOW_MULTIPLIER)
        in \<lparr>hasSpike = spike, hasCrash = crash, isStable = (\<not> spike \<and> \<not> crash)\<rparr>)"

text \<open>
  The arithmetic mean, in the words of the specification: the sum of the samples over
  their number.
\<close>

definition average_spec :: "real list \<Rightarrow> real" where
  "average_spec ys = sum_list ys / real (length ys)"

section \<open>Liquidity and risk\<close>

definition hassufficientVolume :: "real \<Rightarrow> real \<Rightarrow> bool" where
  "hassufficientVolume vol itemPrice =
     (let threshold = (if 1000000 < itemPrice then MIN_VOLUME_THRESHOLDS_HOURLY
                       else MIN_VOLUME_THRESHOLDS_DAILY)
      in threshold \<le> vol)"

definition getRiskLevel :: "real \<Rightarrow> riskLevel" where
  "getRiskLevel v =
     (if v < VOLATILITY_THRESHOLDS_LOW then Low
      else if v < VOLATILITY_THRESHOLDS_MEDIUM then Medium
      else if v < VOLATILITY_THRESHOLDS_HIGH then High
      else Extreme)"

section \<open>Quantity sizing\<close>

text \<open>
  \<open>calculateOptimalQuantity(budget, avgPrice, buyLimit, volume = 0, maxBudgetPercent = 1.0)\<close>.
  Its only caller passes an \<open>avgPrice\<close> that it has checked to be positive; at
  \<open>avgPrice = 0\<close> the quotients of the source are infinite or \<open>NaN\<close>, which this
  real-valued model does not represent, so every statement about it below assumes
  \<open>0 < avgPrice\<close>.
\<close>

definition calculateOptimalQuantity :: "real \<Rightarrow> real \<Rightarrow> real \<Rightarrow> real \<Rightarrow> real \<Rightarrow> real" where
  "calculateOptimalQuantity budget avgP limit vol maxBudgetPercent =
     (let maxBudgetForItem = budget * maxBudgetPercent;
          maxQuantityByBudget = real_of_int \<lfloor>maxBudgetForItem / avgP\<rfloor>;
          maxQuantityByPrice = real_of_int \<lfloor>budget / avgP\<rfloor>;
          effectiveBuyLimit = (if limit = 0 then MAX_SAFE_INTEGER else limit);
          volumeBasedLimit =
            (if 0 < vol then max 1 (real_of_int \<lfloor>vol * 0.1\<rfloor>) else MAX_SAFE_INTEGER)
      in min (min (min effectiveBuyLimit maxQuantityByBudget) maxQuantityByPrice) volumeBasedLimit)"

text \<open>
  The sizing rule in the words of the specification, where a missing bound is
  \<open>+\<infinity>\<close> (\<open>None\<close>, under \<open>min_inf\<close>).
\<close>

definition budgetVolumeBound_spec :: "real \<Rightarrow> real \<Rightarrow> real \<Rightarrow> real \<Rightarrow> real" where
  "budgetVolumeBound_spec budget avgP vol maxBudgetFraction =
     (let maxAllocation = budget * maxBudgetFraction;
          byAllocation = real_of_int \<lfloor>maxAllocation / avgP\<rfloor>;
          byBudget = real_of_int \<lfloor>budget / avgP\<rfloor>;
          byVolume = (if 0 < vol then Some (max 1 (real_of_int \<lfloor>vol * 0.1\<rfloor>)) else None)
      in min_inf byVolume (min byAllocation byBudget))"

definition sizeQuantity_spec :: "real \<Rightarrow> real \<Rightarrow> real \<Rightarrow> real \<Rightarrow> real \<Rightarrow> real" where
  "sizeQuantity_spec budget avgP positionLimit vol maxBudgetFraction =
     (let effectiveLimit = (if positionLimit = 0 then None else Some positionLimit)
      in max 0 (min_inf effectiveLimit
                  (budgetVolumeBound_spec budget avgP vol maxBudgetFraction)))"

section \<open>Composite ranking\<close>

definition sortedByProfit :: "FlipOpportunity list \<Rightarrow> FlipOpportunity list" where
  "sortedByProfit opps = sortDescBy profitAfterTax opps"

definition sortedByVolume :: "FlipOpportunity list \<Rightarrow> FlipOpportunity list" where
  "sortedByVolume opps = sortDescBy volume opps"

definition sortedByROI :: "FlipOpportunity list \<Rightarrow> FlipOpportunity list" where
  "sortedByROI opps = sortDescBy roi opps"

text \<open>
  The ranks and scores that \<open>calculateOpportunityScores\<close> computes for one
  opportunity \<open>opp\<close> of the list, under the names of its local constants.
\<close>

definition profitRank :: "FlipOpportunity list \<Rightarrow> FlipOpportunity \<Rightarrow> int" where
  "profitRank opps opp = findIndex (\<lambda>other. id_opp other = id_opp opp) (sortedByProfit opps)"

definition volumeRank :: "FlipOpportunity list \<Rightarrow> FlipOpportunity \<Rightarrow> int" where
  "volumeRank opps opp = findIndex (\<lambda>other. id_opp other = id_opp opp) (sortedByVolume opps)"

definition roiRank :: "FlipOpportunity list \<Rightarrow> FlipOpportunity \<Rightarrow> int" where
  "roiRank opps opp = findIndex (\<lambda>other. id_opp other = id_opp opp) (sortedByROI opps)"

definition profitScore :: "FlipOpportunity list \<Rightarrow> FlipOpportunity \<Rightarrow> real" where
  "profitScore opps opp = 1 - (real_of_int (profitRank opps opp) / real (length opps))"

definition volumeScore :: "FlipOpportunity list \<Rightarrow> FlipOpportunity \<Rightarrow> real" where
  "volumeScore opps opp = 1 - (real_of_int (volumeRank opps opp) / real (length opps))"

definition roiScore :: "FlipOpportunity list \<Rightarrow> FlipOpportunity \<Rightarrow> real" where
  "roiScore opps opp = 1 - (real_of_int (roiRank opps opp) / real (length opps))"

definition calculateOpportunityScores :: "FlipOpportunity list \<Rightarrow> FlipOpportunity list" where
  "calculateOpportunityScores opps =
     (if length opps = 0 then opps
      else
        map (\<lambda>opp.
          let composite = (profitScore opps opp * 0.5) + (volumeScore opps opp * 0.3)
                            + (roiScore opps opp * 0.2)
          in opp\<lparr>compositeScore := Some composite\<rparr>) opps)"

text \<open>
  The composite score as the code computes it, every operation rounded: the ranks and
  the length are integers, \<open>0.5\<close> is a double, and the literals \<open>0.3\<close> and \<open>0.2\<close>
  are the doubles nearest to them. The field \<open>compositeScore\<close> above holds the exact
  blend, of which this is the rounding.
\<close>

definition compositeScore64 :: "FlipOpportunity list \<Rightarrow> FlipOpportunity \<Rightarrow> real" where
  "compositeScore64 opps opp =
     (let profitScore64 =
            fl64 (1 - fl64 (real_of_int (profitRank opps opp) / real (length opps)));
          volumeScore64 =
            fl64 (1 - fl64 (real_of_int (volumeRank opps opp) / real (length opps)));
          roiScore64 =
            fl64 (1 - fl64 (real_of_int (roiRank opps opp) / real (length opps)))
      in fl64 (fl64 (fl64 (profitScore64 * 0.5) + fl64 (volumeScore64 * fl64 0.3))
               + fl64 (roiScore64 * fl64 0.2)))"

text \<open>
  \<open>opp.compositeScore || 0\<close> as the comparator of \<open>sortOpportunitiesByScore\<close> reads
  it: 0 for a candidate without a score, else the double.
\<close>

definition scoreOrZero64 :: "FlipOpportunity list \<Rightarrow> FlipOpportunity \<Rightarrow> real" where
  "scoreOrZero64 opps opp =
     (case compositeScore opp of None \<Rightarrow> 0 | Some _ \<Rightarrow> compositeScore64 opps opp)"

definition sortOpportunitiesByScore :: "FlipOpportunity list \<Rightarrow> FlipOpportunity list" where
  "sortOpportunitiesByScore opps =
     (let scoredOpportunities = calculateOpportunityScores opps
      in sortDescBy (scoreOrZero64 opps) scoredOpportunities)"

section \<open>Post-evaluation filter\<close>

definition filterProfitableOpportunities ::
  "FlipOpportunity list \<Rightarrow> real \<Rightarrow> real \<Rightarrow> real \<Rightarrow> real \<Rightarrow> FlipOpportunity list" where
  "filterProfitableOpportunities opps minProfit minROI minVol maxVol =
     filter (\<lambda>opp.
       if profitAfterTax opp < minProfit \<or> roi opp < minROI then False
       else if MAX_MARGIN_PERCENT < marginPercent opp then False
       else if \<not> hassufficientVolume (volume opp) (currentHigh opp) then False
       else if 0 < minVol \<and> volume opp < minVol then False
       else if maxVol < volatility opp then False
       else True) opps"

section \<open>Opportunity evaluation\<close>

text \<open>
  The body of the loop of \<open>getFlipOpportunities\<close> over the items: \<open>None\<close> is
  \<open>continue\<close>, \<open>Some\<close> is the record pushed. The volume table of
  \<open>fetchVolumeData\<close> and the items of the database query are arguments.
\<close>

definition evaluateItem ::
  "real \<Rightarrow> filterOptions \<Rightarrow> (int \<rightharpoonup> real) \<Rightarrow> item \<Rightarrow> FlipOpportunity option" where
  "evaluateItem budget opts volumeData it =
     (case prices it of
        [] \<Rightarrow> None
      | latestPrice # _ \<Rightarrow>
          if \<not> truthy (high latestPrice) \<or> \<not> truthy (low latestPrice) then None
          else
            let h = orZero (high latestPrice);
                l = orZero (low latestPrice);
                vol = orZero (volumeData (item_id it))
            in if \<not> hassufficientVolume vol h then None
            else
              let avgP = (h + l) / 2;
                  m = calculateMargin h l;
                  mp = calculateMarginPercent m l
              in if m \<le> 0 \<or> avgP \<le> 0 then None
              else
                let recentHighs =
                      filter (\<lambda>p. 0 < p) (map (\<lambda>p. orZero (high p)) (take 10 (prices it)));
                    recentLows =
                      filter (\<lambda>p. 0 < p) (map (\<lambda>p. orZero (low p)) (take 10 (prices it)));
                    vola = calculateVolatility recentHighs;
                    risk = getRiskLevel vola
                in if \<not> includeHighRisk opts \<and> 25 < vola then None
                else if VOLATILITY_THRESHOLDS_EXTREME < vola then None
                else
                  let analysis = detectPriceAnomalies h l recentHighs recentLows
                  in if \<not> includeSpikes opts \<and> \<not> isStable analysis then None
                  else
                    let q = calculateOptimalQuantity budget avgP (item_buyLimit it) vol 1
                    in if q = 0 then None
                    else
                      let cost = q * l;
                          profit = q * m;
                          afterTax = calculateProfitAfterTax m h q;
                          r = calculateROI afterTax cost
                      in Some \<lparr>id_opp = item_id it,
                               name = item_name it,
                               icon = (case item_icon it of
                                         None \<Rightarrow> None
                                       | Some s \<Rightarrow> if s = [] then None else Some s),
                               currentHigh = h,
                               currentLow = l,
                               avgPrice = avgP,
                               margin = m,
                               marginPercent = mp,
                               roi = r,
                               quantity = q,
                               totalCost = cost,
                               totalProfit = profit,
                               profitAfterTax = afterTax,
                               buyLimit = item_buyLimit it,
                               volume = vol,
                               volatility = vola,
                               lastUpdated = timestamp latestPrice,
                               compositeScore = None,
                               riskLevel = Some risk,
                               isStable_opp = Some (isStable analysis)\<rparr>)"

text \<open>
  The return of a candidate as the code computes and stores it: \<open>calculateROI\<close> of
  its profit after tax and its total cost, both integers, with the quotient and the
  product rounded. The field \<open>roi\<close> holds the exact value, of which this is the
  rounding; it is what the comparator \<open>b.roi - a.roi\<close> reads.
\<close>

definition roi64 :: "FlipOpportunity \<Rightarrow> real" where
  "roi64 opp =
     (if totalCost opp = 0 then 0
      else fl64 (fl64 (profitAfterTax opp / totalCost opp) * 100))"

definition getFlipOpportunities ::
  "real \<Rightarrow> filterOptions \<Rightarrow> (int \<rightharpoonup> real) \<Rightarrow> item list \<Rightarrow> FlipOpportunity list" where
  "getFlipOpportunities budget opts volumeData items =
     (let opps = List.map_filter (evaluateItem budget opts volumeData) items;
          profitableOpportunities =
            filterProfitableOpportunities opps 1000 5 (minVolume opts) (maxVolatility opts)
      in if 100000000 < budget then sortDescBy roi64 profitableOpportunities
         else sortOpportunitiesByScore profitableOpportunities)"

text \<open>
  The local constant \<open>profitableOpportunities\<close> of \<open>getFlipOpportunities\<close>: the
  candidates that the loop emits and the post-evaluation filter keeps, in the order
  of the items.
\<close>

definition profitableOpportunities ::
  "real \<Rightarrow> filterOptions \<Rightarrow> (int \<rightharpoonup> real) \<Rightarrow> item list \<Rightarrow> FlipOpportunity list" where
  "profitableOpportunities budget opts volumeData items =
     filterProfitableOpportunities
       (List.map_filter (evaluateItem budget opts volumeData) items)
       1000 5 (minVolume opts) (maxVolatility opts)"

section \<open>Portfolio construction\<close>

text \<open>
  \<open>getPortfolioSuggestion\<close> first calls \<open>getFlipOpportunities\<close> and then selects from
  its result; the second part, which the specification calls \<open>buildPortfolio\<close>, is a
  function of the candidates and the budget. The quantity and the record that the loop
  body computes are \<open>adjustedQuantity\<close> and \<open>adjustedOpportunity\<close>, after its locals.

  \<open>Math.floor(remainingBudget / opportunity.currentLow)\<close> is taken only while
  \<open>remainingBudget\<close> is positive, so at \<open>currentLow = 0\<close> it is \<open>+Infinity\<close>.
\<close>

definition affordable :: "real \<Rightarrow> real \<Rightarrow> real option" where
  "affordable remainingBudget l =
     (if l = 0 then None else Some (real_of_int \<lfloor>remainingBudget / l\<rfloor>))"

definition adjustedQuantity :: "real \<Rightarrow> real \<Rightarrow> FlipOpportunity \<Rightarrow> real" where
  "adjustedQuantity budget remainingBudget opp =
     (if buyLimit opp = 0 then
        let volumeMultiplier = (if budget * 0.5 < remainingBudget then 0.2 else 0.1)
        in min_inf (affordable remainingBudget (currentLow opp))
             (real_of_int \<lfloor>volume opp * volumeMultiplier\<rfloor>)
      else
        min_inf (affordable remainingBudget (currentLow opp)) (quantity opp))"

definition adjustedOpportunity :: "FlipOpportunity \<Rightarrow> real \<Rightarrow> FlipOpportunity" where
  "adjustedOpportunity opp q =
     (let adj = opp\<lparr>quantity := q,
                    totalCost := q * currentLow opp,
                    totalProfit := q * margin opp,
                    profitAfterTax :=
                      calculateProfitAfterTax (margin opp) (currentHigh opp) q\<rparr>
      in adj\<lparr>roi := calculateROI (profitAfterTax adj) (totalCost adj)\<rparr>)"

text \<open>
  The selection loop, with \<open>maxItems = 8\<close>: the state is the remaining budget and the
  list selected so far; \<open>break\<close> returns the list.
\<close>

fun selectOpportunities ::
  "real \<Rightarrow> real \<Rightarrow> FlipOpportunity list \<Rightarrow> FlipOpportunity list \<Rightarrow> FlipOpportunity list" where
  "selectOpportunities budget remainingBudget selected [] = selected"
| "selectOpportunities budget remainingBudget selected (opp # rest) =
     (if remainingBudget \<le> 0 \<or> 8 \<le> length selected then selected
      else
        let q = adjustedQuantity budget remainingBudget opp
        in if 0 < q then
             let adj = adjustedOpportunity opp q
             in selectOpportunities budget (remainingBudget - totalCost adj)
                  (selected @ [adj]) rest
           else selectOpportunities budget remainingBudget selected rest)"

definition buildPortfolio :: "FlipOpportunity list \<Rightarrow> real \<Rightarrow> PortfolioSuggestion" where
  "buildPortfolio opps budget =
     (let selectedOpportunities = selectOpportunities budget budget [] opps;
          cost = foldl (\<lambda>sum opp. sum + totalCost opp) 0 selectedOpportunities;
          profit = foldl (\<lambda>sum opp. sum + totalProfit opp) 0 selectedOpportunities;
          afterTax = foldl (\<lambda>sum opp. sum + profitAfterTax opp) 0 selectedOpportunities;
          r = calculateROI afterTax cost;
          utilization = js_times (js_div cost budget) 100
      in \<lparr>totalBudget = budget,
          totalCost_pf = cost,
          totalProfit_pf = profit,
          totalProfitAfterTax = afterTax,
          totalROI = r,
          opportunities = selectedOpportunities,
          itemCount = length selectedOpportunities,
          budgetUtilization = utilization\<rparr>)"

definition getPortfolioSuggestion ::
  "real \<Rightarrow> filterOptions \<Rightarrow> (int \<rightharpoonup> real) \<Rightarrow> item list \<Rightarrow> PortfolioSuggestion" where
  "getPortfolioSuggestion budget opts volumeData items =
     buildPortfolio (getFlipOpportunities budget opts volumeData items) budget"

section \<open>Fixtures\<close>

text \<open>
  The candidates of \<open>tests/profitableOpportunities.test.ts\<close>: \<open>base\<close>, and the two
  copies whose margin percentage sits on the cap and just above it.
\<close>

definition test_base :: FlipOpportunity where
  "test_base =
     \<lparr>id_opp = 1, name = ''Test'', icon = None, currentHigh = 100, currentLow = 90,
      avgPrice = 95, margin = 10, marginPercent = 10, roi = 10, quantity = 1,
      totalCost = 90, totalProfit = 10, profitAfterTax = 2000, buyLimit = 100,
      volume = 2000, volatility = 5, lastUpdated = 0, compositeScore = None,
      riskLevel = None, isStable_opp = None\<rparr>"

definition test_valid :: FlipOpportunity where
  "test_valid = test_base\<lparr>id_opp := 2, marginPercent := MAX_MARGIN_PERCENT\<rparr>"

definition test_invalid :: FlipOpportunity where
  "test_invalid = test_base\<lparr>id_opp := 3, marginPercent := MAX_MARGIN_PERCENT + 1\<rparr>"

text \<open>
  Two candidates as the evaluator emits them at budget 10000: one under a buy limit of
  100, one without a buy limit.
\<close>

definition cand_limited :: FlipOpportunity where
  "cand_limited =
     \<lparr>id_opp = 1, name = ''Limited'', icon = None, currentHigh = 110, currentLow = 100,
      avgPrice = 105, margin = 10, marginPercent = 10, roi = 8, quantity = 95,
      totalCost = 9500, totalProfit = 950, profitAfterTax = 760, buyLimit = 100,
      volume = 2000, volatility = 0, lastUpdated = 0, compositeScore = None,
      riskLevel = Some Low, isStable_opp = Some True\<rparr>"

definition cand_unlimited :: FlipOpportunity where
  "cand_unlimited =
     \<lparr>id_opp = 2, name = ''Unlimited'', icon = None, currentHigh = 60, currentLow = 50,
      avgPrice = 55, margin = 10, marginPercent = 20, roi = 18, quantity = 181,
      totalCost = 9050, totalProfit = 1810, profitAfterTax = 1629, buyLimit = 0,
      volume = 2000, volatility = 0, lastUpdated = 0, compositeScore = None,
      riskLevel = Some Low, isStable_opp = Some True\<rparr>"

text \<open>The options a caller gets when it passes none.\<close>

definition defaultOptions :: filterOptions where
  "defaultOptions =
     \<lparr>minVolume = 0, maxVolatility = VOLATILITY_THRESHOLDS_EXTREME,
      includeSpikes = False, includeHighRisk = False\<rparr>"

text \<open>
  The scenario of the specification: one item with a single price row, high 110 and
  low 100, a buy limit of 100 and a 24h volume of 2000.
\<close>

definition scenario_item :: item where
  "scenario_item =
     \<lparr>item_id = 1, item_name = ''Limited'', item_icon = None, item_buyLimit = 100,
      prices = [\<lparr>high = Some 110, low = Some 100, timestamp = 0\<rparr>]\<rparr>"

definition scenario_volumes :: "int \<rightharpoonup> real" where
  "scenario_volumes = [1 \<mapsto> 2000]"



















section \<open>Tax\<close>

text \<open>
  C3. The tax is the floor of 2 percent of the sell price, clamped into the closed range
  from 1 to 5,000,000: for every positive sell price it lies between 1 and 5,000,000, and
  at sell price 0 it is 1.
\<close>

theorem calculateGETax_clamped:
  "calculateGETax sellPrice = min (max (real_of_int \<lfloor>sellPrice * 0.02\<rfloor>) 1) 5000000
   \<and> (0 < sellPrice \<longrightarrow> 1 \<le> calculateGETax sellPrice \<and> calculateGETax sellPrice \<le> 5000000)
   \<and> calculateGETax 0 = 1"
  by (simp add: calculateGETax_def GE_TAX_RATE_def MAX_GE_TAX_def)

text \<open>At sell prices 110 and 1,000,000,000 the tax is 2 and the cap.\<close>

theorem calculateGETax_clamped_witness:
  "(0::real) < 110 \<and> calculateGETax 110 = 2
   \<and> 1 \<le> calculateGETax 110 \<and> calculateGETax 110 \<le> 5000000
   \<and> (0::real) < 1000000000 \<and> calculateGETax 1000000000 = 5000000"
  using calculateGETax_clamped [of 110] calculateGETax_clamped [of 1000000000]
  by simp

section \<open>Anomaly detection\<close>

lemma foldl_plus_sum_list: "foldl (\<lambda>sum p. sum + p) a xs = a + sum_list (xs :: real list)"
  by (induction xs arbitrary: a) simp_all

lemma average_drop:
  assumes "\<not> length xs < 3"
  shows "foldl (\<lambda>sum p. sum + p) 0 (drop 1 xs) / (real (length xs) - 1) = average_spec (tl xs)"
  using assms by (cases xs) (simp_all add: average_spec_def foldl_plus_sum_list)

text \<open>
  C4. With fewer than 3 recent highs or fewer than 3 recent lows the result is stable, with
  no spike and no crash. Otherwise each list loses its entry at index 0, the rest is
  averaged, a spike is a current high above 1.5 times the average high, a crash is a
  current low below 0.5 times the average low, and the price is stable iff there is
  neither.
\<close>

theorem detectPriceAnomalies_baseline:
  "detectPriceAnomalies curHigh curLow recentHighs recentLows =
     (if length recentHighs < 3 \<or> length recentLows < 3
      then \<lparr>hasSpike = False, hasCrash = False, isStable = True\<rparr>
      else \<lparr>hasSpike = (average_spec (tl recentHighs) * 1.5 < curHigh),
            hasCrash = (curLow < average_spec (tl recentLows) * 0.5),
            isStable = (\<not> (average_spec (tl recentHighs) * 1.5 < curHigh)
                        \<and> \<not> (curLow < average_spec (tl recentLows) * 0.5))\<rparr>)"
proof (cases "length recentHighs < 3 \<or> length recentLows < 3")
  case True
  then show ?thesis by (simp add: detectPriceAnomalies_def)
next
  case False
  then have short: "\<not> length recentHighs < 3" "\<not> length recentLows < 3"
    by simp_all
  show ?thesis
    unfolding detectPriceAnomalies_def Let_def
      average_drop [OF short(1)] average_drop [OF short(2)]
      PRICE_SPIKE_THRESHOLDS_HIGH_MULTIPLIER_def PRICE_SPIKE_THRESHOLDS_LOW_MULTIPLIER_def
    using False by simp
qed

text \<open>
  A current high of 200 against trailing highs that average 100 is a spike, whatever
  the sample at index 0; with two samples nothing is flagged.
\<close>

theorem detectPriceAnomalies_baseline_witness:
  "detectPriceAnomalies 200 100 [900, 100, 100, 100] [100, 100, 100]
     = \<lparr>hasSpike = True, hasCrash = False, isStable = False\<rparr>
   \<and> detectPriceAnomalies 200 100 [100, 100] [100, 100, 100]
     = \<lparr>hasSpike = False, hasCrash = False, isStable = True\<rparr>"
  using detectPriceAnomalies_baseline [of 200 100 "[900, 100, 100, 100]" "[100, 100, 100]"]
    detectPriceAnomalies_baseline [of 200 100 "[100, 100]" "[100, 100, 100]"]
  by (simp add: average_spec_def)

section \<open>Quantity sizing\<close>

lemma min4_unlimited:
  fixes M :: real
  shows "min (min (min M A) B) (if c then V else M)
           = min M (min_inf (if c then Some V else None) (min A B))"
  by (cases c) (simp_all add: min_def)

lemma min4_floor:
  fixes L :: real
  assumes "0 \<le> A" "0 \<le> B" "B \<le> M" "1 \<le> V" "0 \<le> L"
  shows "min (min (min (if L = 0 then M else L) A) B) (if c then V else M)
           = max 0 (min_inf (if L = 0 then None else Some L)
                      (min_inf (if c then Some V else None) (min A B)))"
    and "0 \<le> min (min (min (if L = 0 then M else L) A) B) (if c then V else M)"
proof -
  have M: "0 \<le> M"
    using assms(2,3) by simp
  show "0 \<le> min (min (min (if L = 0 then M else L) A) B) (if c then V else M)"
    using assms M by simp
  have nonneg: "0 \<le> min_inf (if L = 0 then None else Some L)
                      (min_inf (if c then Some V else None) (min A B))"
    using assms by (cases c; cases "L = 0"; simp)
  show "min (min (min (if L = 0 then M else L) A) B) (if c then V else M)
           = max 0 (min_inf (if L = 0 then None else Some L)
                      (min_inf (if c then Some V else None) (min A B)))"
    unfolding max_absorb2 [OF nonneg] using assms(3)
    by (cases c; cases "L = 0"; simp add: min_def)
qed

text \<open>
  C5, as the code has it. For a positive average price, the quantity never exceeds a
  buy limit other than 0. With buy limit 0 it is the smallest of the budget-derived
  bounds, the volume-derived bound (when the volume is positive) and the sentinel
  \<open>2^53 - 1\<close> that stands in for an absent limit.
\<close>

theorem calculateOptimalQuantity_buyLimit:
  "0 < avgP \<Longrightarrow>
   (limit \<noteq> 0 \<longrightarrow> calculateOptimalQuantity budget avgP limit vol pct \<le> limit) \<and>
   (limit = 0 \<longrightarrow> calculateOptimalQuantity budget avgP limit vol pct
       = min MAX_SAFE_INTEGER (budgetVolumeBound_spec budget avgP vol pct))"
proof (intro conjI impI)
  assume "limit \<noteq> 0"
  then show "calculateOptimalQuantity budget avgP limit vol pct \<le> limit"
    unfolding calculateOptimalQuantity_def Let_def
    by (simp add: min.coboundedI1)
next
  assume "limit = 0"
  then show "calculateOptimalQuantity budget avgP limit vol pct
       = min MAX_SAFE_INTEGER (budgetVolumeBound_spec budget avgP vol pct)"
    unfolding calculateOptimalQuantity_def budgetVolumeBound_spec_def Let_def
    using min4_unlimited [of MAX_SAFE_INTEGER _ _ "0 < vol"]
    by simp
qed

text \<open>
  At budget 10000, average price 105 and volume 2000: 95 units under a buy limit of
  100, and 95 units, the budget bound, with no buy limit.
\<close>

theorem calculateOptimalQuantity_buyLimit_witness:
  "(0::real) < 105 \<and> (100::real) \<noteq> 0
   \<and> calculateOptimalQuantity 10000 105 100 2000 1 \<le> 100
   \<and> calculateOptimalQuantity 10000 105 0 2000 1
        = min MAX_SAFE_INTEGER (budgetVolumeBound_spec 10000 105 2000 1)
   \<and> calculateOptimalQuantity 10000 105 0 2000 1 = 95"
  using calculateOptimalQuantity_buyLimit [of 105 100 10000 2000 1]
    calculateOptimalQuantity_buyLimit [of 105 0 10000 2000 1]
  by (simp add: budgetVolumeBound_spec_def MAX_SAFE_INTEGER_def)

text \<open>
  C5 as stated fails: with no buy limit, a budget of \<open>10^17\<close> at average price 1 and a
  volume of \<open>10^18\<close>, both the budget bound and the volume bound are \<open>10^17\<close>, and the
  quantity is the sentinel \<open>2^53 - 1\<close>.
\<close>

theorem calculateOptimalQuantity_sentinel_binds:
  "calculateOptimalQuantity 100000000000000000 1 0 1000000000000000000 1 = 9007199254740991
   \<and> budgetVolumeBound_spec 100000000000000000 1 1000000000000000000 1 = 100000000000000000
   \<and> calculateOptimalQuantity 100000000000000000 1 0 1000000000000000000 1
       \<noteq> budgetVolumeBound_spec 100000000000000000 1 1000000000000000000 1"
  by (simp add: calculateOptimalQuantity_def budgetVolumeBound_spec_def MAX_SAFE_INTEGER_def)

text \<open>
  C6, as the code has it. For a budget and a budget fraction that are not negative, a
  positive average price, a buy limit and a volume that are not negative, and a budget
  bound within \<open>2^53 - 1\<close>, the quantity is the minimum the specification describes,
  and it is not negative.
\<close>

theorem calculateOptimalQuantity_refines_spec:
  assumes "0 < avgP" "0 \<le> limit" "0 \<le> vol" "0 \<le> budget" "0 \<le> pct"
    and "real_of_int \<lfloor>budget / avgP\<rfloor> \<le> MAX_SAFE_INTEGER"
  shows "calculateOptimalQuantity budget avgP limit vol pct
           = sizeQuantity_spec budget avgP limit vol pct
         \<and> 0 \<le> calculateOptimalQuantity budget avgP limit vol pct"
proof -
  have a: "0 \<le> real_of_int \<lfloor>budget * pct / avgP\<rfloor>"
    using assms by simp
  have b: "0 \<le> real_of_int \<lfloor>budget / avgP\<rfloor>"
    using assms by simp
  have v: "1 \<le> max 1 (real_of_int \<lfloor>vol * 0.1\<rfloor>)"
    by simp
  show ?thesis
    unfolding calculateOptimalQuantity_def budgetVolumeBound_spec_def sizeQuantity_spec_def
      Let_def
    by (rule conjI [OF min4_floor [OF a b assms(6) v assms(2), of "0 < vol"]])
qed

text \<open>The sizing of the scenario: 95 units, by the code and by the specification's rule.\<close>

theorem calculateOptimalQuantity_refines_spec_witness:
  "(0::real) < 105 \<and> (0::real) \<le> 100 \<and> (0::real) \<le> 2000 \<and> (0::real) \<le> 10000
   \<and> (0::real) \<le> 1
   \<and> real_of_int \<lfloor>(10000::real) / 105\<rfloor> \<le> MAX_SAFE_INTEGER
   \<and> calculateOptimalQuantity 10000 105 100 2000 1 = sizeQuantity_spec 10000 105 100 2000 1
   \<and> 0 \<le> calculateOptimalQuantity 10000 105 100 2000 1
   \<and> sizeQuantity_spec 10000 105 100 2000 1 = 95"
proof -
  have h: "(0::real) < 105" "(0::real) \<le> 100" "(0::real) \<le> 2000" "(0::real) \<le> 10000"
    "(0::real) \<le> 1"
    "real_of_int \<lfloor>(10000::real) / 105\<rfloor> \<le> MAX_SAFE_INTEGER"
    by (simp_all add: MAX_SAFE_INTEGER_def)
  have s: "sizeQuantity_spec 10000 105 100 2000 1 = 95"
    by (simp add: sizeQuantity_spec_def budgetVolumeBound_spec_def)
  show ?thesis
    using h s calculateOptimalQuantity_refines_spec [OF h] by simp
qed

text \<open>
  C6 as stated fails twice. There is no floor at 0: a budget of -100 at average price 1
  under a buy limit of 10 gives -100 units, where the specification's rule gives 0. And
  an absent bound is \<open>2^53 - 1\<close>, not \<open>+\<infinity>\<close>: with no buy limit and no volume, a budget
  of \<open>10^17\<close> at average price 1 gives \<open>2^53 - 1\<close> units, where the rule gives \<open>10^17\<close>.
\<close>

theorem calculateOptimalQuantity_not_floored:
  "calculateOptimalQuantity (- 100) 1 10 0 1 = - 100
   \<and> sizeQuantity_spec (- 100) 1 10 0 1 = 0
   \<and> \<not> 0 \<le> calculateOptimalQuantity (- 100) 1 10 0 1
   \<and> calculateOptimalQuantity 100000000000000000 1 0 0 1 = 9007199254740991
   \<and> sizeQuantity_spec 100000000000000000 1 0 0 1 = 100000000000000000"
  by (simp add: calculateOptimalQuantity_def budgetVolumeBound_spec_def sizeQuantity_spec_def
      MAX_SAFE_INTEGER_def)

section \<open>Post-evaluation filter\<close>

text \<open>
  C7. Whatever the candidates and the filter parameters, no candidate whose margin
  percentage exceeds 1000 is in the output of the post-evaluation filter.
\<close>

theorem filterProfitableOpportunities_margin_cap:
  "\<forall>opp \<in> set (filterProfitableOpportunities opps minProfit minROI minVol maxVol).
     \<not> 1000 < marginPercent opp"
  by (simp add: filterProfitableOpportunities_def MAX_MARGIN_PERCENT_def)

text \<open>
  The repository's test: of the candidate on the cap and the one above it, only the
  first survives.
\<close>

theorem filterProfitableOpportunities_margin_cap_witness:
  "filterProfitableOpportunities [test_valid, test_invalid] 1000 5 0 30 = [test_valid]
   \<and> 1000 < marginPercent test_invalid
   \<and> list_all (\<lambda>opp. \<not> 1000 < marginPercent opp)
        (filterProfitableOpportunities [test_valid, test_invalid] 1000 5 0 30)"
  using filterProfitableOpportunities_margin_cap [of "[test_valid, test_invalid]" 1000 5 0 30]
  by (simp add: list_all_iff filterProfitableOpportunities_def test_valid_def test_invalid_def test_base_def
      MAX_MARGIN_PERCENT_def hassufficientVolume_def MIN_VOLUME_THRESHOLDS_DAILY_def)

section \<open>Evaluation of one item\<close>

lemmas evaluation_defs =
  evaluateItem_def truthy_def orZero_def hassufficientVolume_def
  MIN_VOLUME_THRESHOLDS_DAILY_def calculateMargin_def calculateMarginPercent_def
  calculateVolatility_def getRiskLevel_def VOLATILITY_THRESHOLDS_LOW_def
  VOLATILITY_THRESHOLDS_EXTREME_def detectPriceAnomalies_def calculateOptimalQuantity_def
  calculateProfitAfterTax_def calculateGETax_def GE_TAX_RATE_def MAX_GE_TAX_def
  calculateROI_def MAX_SAFE_INTEGER_def Let_def

lemma evaluateItem_scenario:
  "evaluateItem 10000 defaultOptions scenario_volumes scenario_item = Some cand_limited"
  by (simp add: evaluation_defs scenario_item_def scenario_volumes_def defaultOptions_def
      cand_limited_def)

text \<open>
  C2, as the code has it. For the item with high 110, low 100, volume 2000 and buy
  limit 100 at budget 10000 the margin is 10, the tax 2 and the profit after tax per
  unit 8; the quantity is 95, since the budget is divided by the average price 105 and
  not by the low price; the total cost is 9500, the profit after tax 760 and the return
  8 percent.
\<close>

theorem scenario_evaluation:
  "calculateMargin 110 100 = 10
   \<and> calculateGETax 110 = 2
   \<and> calculateMargin 110 100 - calculateGETax 110 = 8
   \<and> evaluateItem 10000 defaultOptions scenario_volumes scenario_item = Some cand_limited
   \<and> margin cand_limited = 10
   \<and> quantity cand_limited = 95
   \<and> totalCost cand_limited = 9500
   \<and> profitAfterTax cand_limited = 760
   \<and> roi cand_limited = 8"
  using evaluateItem_scenario
  by (simp add: calculateMargin_def calculateGETax_def GE_TAX_RATE_def MAX_GE_TAX_def
      cand_limited_def)

text \<open>The candidate of the scenario: 95 units for 9500, 760 after tax, 8 percent.\<close>

theorem scenario_evaluation_witness:
  "map_option (\<lambda>opp. (quantity opp, totalCost opp, profitAfterTax opp, roi opp))
     (evaluateItem 10000 defaultOptions scenario_volumes scenario_item)
     = Some (95, 9500, 760, 8)"
  using scenario_evaluation by simp

text \<open>
  C2 as stated fails: the candidate of the scenario has neither 100 units, nor a total
  cost of 10000, nor a profit after tax of 800.
\<close>

theorem scenario_not_100_units:
  "map_option quantity (evaluateItem 10000 defaultOptions scenario_volumes scenario_item)
     \<noteq> Some 100
   \<and> map_option totalCost (evaluateItem 10000 defaultOptions scenario_volumes scenario_item)
     \<noteq> Some 10000
   \<and> map_option profitAfterTax
        (evaluateItem 10000 defaultOptions scenario_volumes scenario_item)
     \<noteq> Some 800"
  unfolding evaluateItem_scenario by (simp add: cand_limited_def)

text \<open>
  With a profit after tax of 760 the candidate of the scenario then falls to the
  post-evaluation filter, whose minimum is 1000.
\<close>

lemma scenario_filtered:
  "getFlipOpportunities 10000 defaultOptions scenario_volumes [scenario_item] = []"
  by (simp add: getFlipOpportunities_def List.map_filter_simps evaluateItem_scenario
      filterProfitableOpportunities_def cand_limited_def sortOpportunitiesByScore_def
      calculateOpportunityScores_def sortDescBy_def Let_def)

section \<open>Ranking\<close>

lemma findIndex_bounds:
  assumes "\<exists>x \<in> set xs. p x"
  shows "0 \<le> findIndex p xs \<and> findIndex p xs < int (length xs)"
  using assms
proof (induction xs)
  case Nil
  then show ?case by simp
next
  case (Cons x xs)
  show ?case
  proof (cases "p x")
    case True
    then show ?thesis by simp
  next
    case False
    with Cons.prems have "\<exists>y \<in> set xs. p y" by simp
    from Cons.IH [OF this] False show ?thesis by (simp add: Let_def)
  qed
qed

lemma set_sortDescBy: "set (sortDescBy f xs) = set xs"
  by (simp add: sortDescBy_def)

lemma length_sortDescBy: "length (sortDescBy f xs) = length xs"
  by (simp add: sortDescBy_def)


lemma rank_score_bounds:
  assumes "opp \<in> set opps" and "set ranked = set opps" and "length ranked = length opps"
  shows "1 / real (length opps)
           \<le> 1 - (real_of_int (findIndex (\<lambda>other. id_opp other = id_opp opp) ranked)
                    / real (length opps))"
    and "1 - (real_of_int (findIndex (\<lambda>other. id_opp other = id_opp opp) ranked)
                    / real (length opps)) \<le> 1"
proof -
  let ?r = "findIndex (\<lambda>other. id_opp other = id_opp opp) ranked"
  let ?n = "real (length opps)"
  have "\<exists>x \<in> set ranked. id_opp x = id_opp opp"
    using assms(1,2) by blast
  from findIndex_bounds [OF this] have r: "0 \<le> ?r" "?r < int (length opps)"
    using assms(3) by simp_all
  have n: "0 < ?n"
    using assms(1) by (cases opps) simp_all
  have "real_of_int ?r + 1 \<le> ?n"
    using r(2) by linarith
  then have "real_of_int ?r / ?n \<le> (?n - 1) / ?n"
    using n by (simp add: divide_le_cancel)
  also have "\<dots> = 1 - 1 / ?n"
    using n by (simp add: diff_divide_distrib)
  finally show "1 / ?n \<le> 1 - (real_of_int ?r / ?n)"
    by simp
  have "0 \<le> real_of_int ?r / ?n"
    using r(1) n by simp
  then show "1 - (real_of_int ?r / ?n) \<le> 1"
    by simp
qed

lemma metric_scores_bounds:
  assumes "opp \<in> set opps"
  shows "1 / real (length opps) \<le> profitScore opps opp" "profitScore opps opp \<le> 1"
    "1 / real (length opps) \<le> volumeScore opps opp" "volumeScore opps opp \<le> 1"
    "1 / real (length opps) \<le> roiScore opps opp" "roiScore opps opp \<le> 1"
  unfolding profitScore_def volumeScore_def roiScore_def profitRank_def volumeRank_def
    roiRank_def sortedByProfit_def sortedByVolume_def sortedByROI_def
  by (rule rank_score_bounds [OF assms set_sortDescBy length_sortDescBy])+

lemma blend_bounds:
  fixes a b c u :: real
  assumes "u \<le> a" "a \<le> 1" "u \<le> b" "b \<le> 1" "u \<le> c" "c \<le> 1" "0 < u"
  shows "0 < (a * 0.5) + (b * 0.3) + (c * 0.2)" and "(a * 0.5) + (b * 0.3) + (c * 0.2) \<le> 1"
  using assms by simp_all

text \<open>
  C10. For a list of \<open>n > 0\<close> candidates with pairwise distinct ids, each of the three
  scores \<open>1 - rank / n\<close> of a candidate lies between \<open>1 / n\<close> and 1, and every composite
  score that the ranker assigns is greater than 0 and at most 1.
\<close>

theorem compositeScore_range:
  assumes "opps \<noteq> []" and "distinct (map id_opp opps)"
  shows "(\<forall>opp \<in> set opps.
            1 / real (length opps) \<le> profitScore opps opp \<and> profitScore opps opp \<le> 1
          \<and> 1 / real (length opps) \<le> volumeScore opps opp \<and> volumeScore opps opp \<le> 1
          \<and> 1 / real (length opps) \<le> roiScore opps opp \<and> roiScore opps opp \<le> 1)
       \<and> (\<forall>scored \<in> set (calculateOpportunityScores opps).
            \<exists>s. compositeScore scored = Some s \<and> 0 < s \<and> s \<le> 1)"
proof (intro conjI ballI)
  fix scored
  assume "scored \<in> set (calculateOpportunityScores opps)"
  then obtain opp where opp: "opp \<in> set opps"
    and scored: "scored = opp\<lparr>compositeScore :=
        Some ((profitScore opps opp * 0.5) + (volumeScore opps opp * 0.3)
                + (roiScore opps opp * 0.2))\<rparr>"
    using assms(1) by (auto simp: calculateOpportunityScores_def Let_def)
  have u: "0 < 1 / real (length opps)"
    using assms(1) by simp
  note m = metric_scores_bounds [OF opp]
  show "\<exists>s. compositeScore scored = Some s \<and> 0 < s \<and> s \<le> 1"
    unfolding scored
    using blend_bounds [OF m u] by simp
qed (simp_all add: metric_scores_bounds)

lemma scores_of_candidates:
  "map compositeScore (calculateOpportunityScores [cand_limited, cand_unlimited])
     = [Some 0.65, Some 0.85]"
  by (simp add: calculateOpportunityScores_def profitScore_def volumeScore_def roiScore_def
      profitRank_def volumeRank_def roiRank_def sortedByProfit_def sortedByVolume_def
      sortedByROI_def sortDescBy_def cand_limited_def cand_unlimited_def Let_def)

text \<open>The two candidates score 0.65 and 0.85.\<close>

theorem compositeScore_range_witness:
  "[cand_limited, cand_unlimited] \<noteq> []
   \<and> distinct (map id_opp [cand_limited, cand_unlimited])
   \<and> map compositeScore (calculateOpportunityScores [cand_limited, cand_unlimited])
        = [Some 0.65, Some 0.85]
   \<and> list_all (\<lambda>scored. \<exists>s. compositeScore scored = Some s \<and> 0 < s \<and> s \<le> 1)
        (calculateOpportunityScores [cand_limited, cand_unlimited])"
proof -
  have h: "[cand_limited, cand_unlimited] \<noteq> []"
    "distinct (map id_opp [cand_limited, cand_unlimited])"
    by (simp_all add: cand_limited_def cand_unlimited_def)
  show ?thesis
    unfolding list_all_iff
    using h scores_of_candidates compositeScore_range [OF h] by blast
qed

section \<open>Rounding to binary64\<close>






























section \<open>Order of the opportunities\<close>







































section \<open>Portfolio\<close>








lemma selectOpportunities_no_budget:
  "budget \<le> 0 \<Longrightarrow> selectOpportunities budget budget [] opps = []"
  by (cases opps) simp_all

text \<open>
  C8, as the code has it. For every budget that is not positive the portfolio has no
  selections and its totals and its return are 0; for a negative budget the budget
  utilization is 0 as well.
\<close>

theorem buildPortfolio_no_budget:
  assumes "budget \<le> 0"
  shows "opportunities (buildPortfolio opps budget) = []
       \<and> itemCount (buildPortfolio opps budget) = 0
       \<and> totalCost_pf (buildPortfolio opps budget) = 0
       \<and> totalProfit_pf (buildPortfolio opps budget) = 0
       \<and> totalProfitAfterTax (buildPortfolio opps budget) = 0
       \<and> totalROI (buildPortfolio opps budget) = 0
       \<and> (budget < 0 \<longrightarrow> budgetUtilization (buildPortfolio opps budget) = Num 0)"
  by (simp add: buildPortfolio_def selectOpportunities_no_budget [OF assms] calculateROI_def
      js_div_def js_times_def Let_def)

text \<open>At a budget of -5 nothing is selected and the utilization is 0.\<close>

theorem buildPortfolio_no_budget_witness:
  "(- 5 :: real) \<le> 0 \<and> (- 5 :: real) < 0
   \<and> opportunities (buildPortfolio [cand_limited, cand_unlimited] (- 5)) = []
   \<and> totalCost_pf (buildPortfolio [cand_limited, cand_unlimited] (- 5)) = 0
   \<and> totalROI (buildPortfolio [cand_limited, cand_unlimited] (- 5)) = 0
   \<and> budgetUtilization (buildPortfolio [cand_limited, cand_unlimited] (- 5)) = Num 0"
proof -
  have h: "(- 5 :: real) \<le> 0" by simp
  show ?thesis
    using buildPortfolio_no_budget [OF h, of "[cand_limited, cand_unlimited]"] by simp
qed

text \<open>
  C8 as stated fails at budget 0: the total cost 0 is divided by the budget 0, so the
  budget utilization of the empty portfolio is \<open>NaN\<close>.
\<close>

theorem buildPortfolio_zero_budget_NaN:
  "budgetUtilization (buildPortfolio [cand_limited, cand_unlimited] 0) = NaN
   \<and> \<not> isFinite (budgetUtilization (buildPortfolio [cand_limited, cand_unlimited] 0))
   \<and> budgetUtilization (getPortfolioSuggestion 0 defaultOptions scenario_volumes [scenario_item])
       = NaN"
  by (simp add: getPortfolioSuggestion_def buildPortfolio_def selectOpportunities_no_budget
      js_div_def js_times_def isFinite_def Let_def)

end
